theory Spec2Isabelle
  imports Complex_Main "HOL-Library.Word"
begin

section \<open>Strings and numbers of the Python runtime\<close>

text \<open>
  The report is built by \<^verbatim>\<open>main.py\<close> from Python strings, integers and floats. The
  functions of this section are the built-in operations the source calls on them:
  \<^verbatim>\<open>str(int)\<close>, \<^verbatim>\<open>str.lower\<close>, \<^verbatim>\<open>str.strip\<close>, \<^verbatim>\<open>str.split\<close>, \<^verbatim>\<open>str.endswith\<close>, and the
  format specification \<^verbatim>\<open>,.2f\<close>.
\<close>

definition digit_char :: "nat \<Rightarrow> char" where
  "digit_char d = ''0123456789'' ! (d mod 10)"

definition is_digit :: "char \<Rightarrow> bool" where
  "is_digit c = (c \<in> set ''0123456789'')"

text \<open>\<^verbatim>\<open>str(n)\<close> for a non-negative integer: its decimal digits, most significant first.\<close>

fun show_nat :: "nat \<Rightarrow> string" where
  "show_nat n = (if n < 10 then [digit_char n] else show_nat (n div 10) @ [digit_char (n mod 10)])"

declare show_nat.simps [simp del]

definition show_int :: "int \<Rightarrow> string" where
  "show_int i = (if i < 0 then ''-'' @ show_nat (nat (- i)) else show_nat (nat i))"

text \<open>Reading a string of decimal digits back, as \<^verbatim>\<open>int(s)\<close> does.\<close>

definition digit_val :: "char \<Rightarrow> nat" where
  "digit_val c = of_char c - 48"

definition read_nat :: "string \<Rightarrow> nat" where
  "read_nat s = foldl (\<lambda>a c. 10 * a + digit_val c) 0 s"

text \<open>\<^verbatim>\<open>s.zfill(w)\<close> on a string of digits: zeros on the left up to width \<open>w\<close>.\<close>

definition zfill :: "nat \<Rightarrow> string \<Rightarrow> string" where
  "zfill w s = replicate (w - length s) CHR ''0'' @ s"

subsection \<open>Floats and the currency format\<close>

text \<open>
  A finite \<^verbatim>\<open>float\<close> is a binary fraction, so it has an exact rational value, and the
  embedding identifies it with that value. Comparison and formatting of floats depend
  on the exact value only, and are modelled exactly. Non-finite floats and the sign of
  zero are not represented.
\<close>

type_synonym float64 = rat

text \<open>Rounding to the nearest integer, a tie going to the even neighbour.\<close>

definition round_half_even :: "rat \<Rightarrow> int" where
  "round_half_even q =
     (let f = \<lfloor>q\<rfloor>; d = q - of_int f
      in if d < 1 / 2 then f else if 1 / 2 < d then f + 1 else if even f then f else f + 1)"

text \<open>
  The thousands separator of the format specification: working from the least
  significant digit, a comma goes in after every third digit that has a digit left of it.
\<close>

fun group3 :: "string \<Rightarrow> string" where
  "group3 (a # b # c # d # rest) = a # b # c # CHR '','' # group3 (d # rest)"
| "group3 ds = ds"

definition commas :: "string \<Rightarrow> string" where
  "commas ds = rev (group3 (rev ds))"

text \<open>
  \<^verbatim>\<open>format(x, ",.2f")\<close>: the sign, the integer digits with separators, the point and two
  decimals, the value rounded correctly (on its exact value, ties to even).
\<close>

definition cents :: "float64 \<Rightarrow> nat" where
  "cents x = nat (round_half_even (\<bar>x\<bar> * 100))"

definition format_comma_2f :: "float64 \<Rightarrow> string" where
  "format_comma_2f x =
     (if x < 0 then ''-'' else '''') @ commas (show_nat (cents x div 100)) @ ''.''
       @ zfill 2 (show_nat (cents x mod 100))"

text \<open>The f-string \<^verbatim>\<open>f"${x:,.2f}"\<close> of \<^verbatim>\<open>render_html\<close> (lines 58 to 60).\<close>

definition format_currency :: "float64 \<Rightarrow> string" where
  "format_currency x = ''$'' @ format_comma_2f x"

subsection \<open>String methods\<close>

text \<open>
  \<^verbatim>\<open>str.lower\<close> on the ASCII letters. Strings are byte strings here; no character
  outside ASCII lower-cases to one of the letters of \<^verbatim>\<open>"true"\<close>, the only word the
  source compares a lower-cased string with.
\<close>

definition lower_char :: "char \<Rightarrow> char" where
  "lower_char c =
     (case map_of (zip ''ABCDEFGHIJKLMNOPQRSTUVWXYZ'' ''abcdefghijklmnopqrstuvwxyz'') c of
        Some d \<Rightarrow> d
      | None \<Rightarrow> c)"

definition lower :: "string \<Rightarrow> string" where
  "lower s = map lower_char s"

definition endswith :: "string \<Rightarrow> string \<Rightarrow> bool" where
  "endswith s suffix = (length suffix \<le> length s \<and> drop (length s - length suffix) s = suffix)"

definition is_space :: "char \<Rightarrow> bool" where
  "is_space c = (c \<in> set [CHR '' '', CHR 0x09, CHR 0x0A, CHR 0x0B, CHR 0x0C, CHR 0x0D])"

definition strip :: "string \<Rightarrow> string" where
  "strip s = rev (dropWhile is_space (rev (dropWhile is_space s)))"

text \<open>\<^verbatim>\<open>s.split(sep)\<close> for a one-character separator: never an empty list.\<close>

fun split_on :: "char \<Rightarrow> string \<Rightarrow> string list" where
  "split_on sep [] = [[]]"
| "split_on sep (c # cs) =
     (if c = sep then [] # split_on sep cs
      else (case split_on sep cs of [] \<Rightarrow> [[c]] | g # gs \<Rightarrow> (c # g) # gs))"

text \<open>\<^verbatim>\<open>", ".join(xs)\<close>.\<close>

fun join_comma :: "string list \<Rightarrow> string" where
  "join_comma [] = []"
| "join_comma [x] = x"
| "join_comma (x # y # ys) = x @ '', '' @ join_comma (y # ys)"

subsection \<open>Paths\<close>

text \<open>\<^verbatim>\<open>os.path.join(a, b)\<close> and \<^verbatim>\<open>os.path.basename(p)\<close> of \<^verbatim>\<open>posixpath\<close>.\<close>

definition path_join :: "string \<Rightarrow> string \<Rightarrow> string" where
  "path_join a b =
     (if b \<noteq> [] \<and> hd b = CHR ''/'' then b
      else if a = [] \<or> last a = CHR ''/'' then a @ b
      else a @ ''/'' @ b)"

definition basename :: "string \<Rightarrow> string" where
  "basename p = rev (takeWhile (\<lambda>c. c \<noteq> CHR ''/'') (rev p))"

section \<open>Errors\<close>

text \<open>
  Every exception is a value. The first group are the exceptions that Python and the
  libraries raise in the calls \<^verbatim>\<open>main.py\<close> makes. The second group are the error kinds
  the specification names; \<^verbatim>\<open>main.py\<close> defines no exception class of its own and has
  no \<^verbatim>\<open>raise\<close> statement other than the \<^verbatim>\<open>RuntimeError\<close> of \<^verbatim>\<open>send_email\<close>, so no
  function below ever returns one of them.
\<close>

datatype error =
    FileNotFoundError | ParserError | ValueError | KeyError | IndexError | AttributeError
  | OSError | RuntimeError | TemplateNotFound | TemplateSyntaxError | SMTPException
  | DataLoadError | EmptyDatasetError | RenderError | TemplateError | ExportError
  | DeliveryError

section \<open>The data\<close>

text \<open>
  A row of the dataset: a calendar date, the order count (\<^verbatim>\<open>int64\<close> in the frame that
  \<^verbatim>\<open>pandas.read_csv\<close> builds) and the revenue (\<^verbatim>\<open>float64\<close>).
\<close>

record date =
  year :: nat
  month :: nat
  day :: nat

record timestamp = date +
  hour :: nat
  minute :: nat

record sales_row =
  date :: date
  orders :: "64 word"
  revenue :: float64

text \<open>
  A \<^verbatim>\<open>DataFrame\<close>: the names of its columns and its rows in file order. A column is
  read only through \<open>getitem\<close>, which raises \<^verbatim>\<open>KeyError\<close> for a name the frame does not
  have; the field of a row that belongs to an absent column is never looked at.
\<close>

record dataframe =
  columns :: "string list"
  records :: "sales_row list"

definition getitem :: "dataframe \<Rightarrow> string \<Rightarrow> (sales_row \<Rightarrow> 'a) \<Rightarrow> error + 'a list" where
  "getitem df name field =
     (if name \<in> set (columns df) then Inr (map field (records df)) else Inl KeyError)"

text \<open>\<^verbatim>\<open>strftime("%Y-%m-%d")\<close> and \<^verbatim>\<open>strftime("%Y-%m-%d %H:%M")\<close>.\<close>

definition strftime_date :: "'a date_scheme \<Rightarrow> string" where
  "strftime_date d =
     zfill 4 (show_nat (year d)) @ ''-'' @ zfill 2 (show_nat (month d)) @ ''-''
       @ zfill 2 (show_nat (day d))"

definition strftime_minute :: "timestamp \<Rightarrow> string" where
  "strftime_minute t =
     strftime_date t @ '' '' @ zfill 2 (show_nat (hour t)) @ '':'' @ zfill 2 (show_nat (minute t))"

section \<open>Artefacts and the world the program runs in\<close>

text \<open>What \<^verbatim>\<open>make_chart\<close> asks matplotlib to draw: a titled line plot with two labelled axes.\<close>

record figure =
  fig_title :: string
  fig_xlabel :: string
  fig_ylabel :: string
  fig_line :: "(date \<times> float64) list"

text \<open>What \<^verbatim>\<open>export_pdf\<close> puts on its single page.\<close>

record pdf_page =
  pdf_title :: string
  pdf_stamp :: string
  pdf_image :: figure

text \<open>
  Modelled from the spec: the template \<^verbatim>\<open>templates/report.html.j2\<close> is not among the
  sources. The specification gives its placeholders: \<^verbatim>\<open>title\<close>, \<^verbatim>\<open>generated_at\<close>,
  \<^verbatim>\<open>chart_path\<close>, \<^verbatim>\<open>total_orders\<close>, \<^verbatim>\<open>total_revenue\<close>, \<^verbatim>\<open>best_day.date\<close>,
  \<^verbatim>\<open>best_day.revenue\<close> and an iterable \<^verbatim>\<open>rows\<close> of \<^verbatim>\<open>{date, orders, revenue}\<close>. A template
  is a sequence of literal text, placeholders and loops over \<^verbatim>\<open>rows\<close>; which sequence
  the file holds is a parameter of every statement below.
\<close>

datatype placeholder =
  PTitle | PGeneratedAt | PChartPath | PTotalOrders | PTotalRevenue | PBestDate | PBestRevenue

datatype row_placeholder = PRowDate | PRowOrders | PRowRevenue

datatype row_node = RowLit string | RowVar row_placeholder

datatype node = Lit string | Var placeholder | ForRows "row_node list"

type_synonym template = "node list"

text \<open>
  The content of a file is kept in parsed form: the bytes of a PNG are "the picture of
  this figure", the bytes of the dataset are "the frame \<^verbatim>\<open>read_csv\<close> parses them to".
\<close>

datatype blob =
  Csv dataframe | Template template | Png figure | Pdf pdf_page | Text string

type_synonym attachment = "string \<times> blob \<times> string"

record message =
  msg_subject :: string
  msg_from :: string
  msg_to :: string
  msg_text :: string
  msg_html :: string
  msg_attachments :: "(string \<times> string \<times> string \<times> blob) list"

text \<open>The calls of a run, in order; \<open>SendEmail\<close> keeps the arguments it was called with.\<close>

datatype stage =
  ReadData | MakeChart | RenderHtml | ExportPdf | SendEmail string string "attachment list"

text \<open>
  The world: the process environment, the file system, the clock, the directory of
  \<^verbatim>\<open>main.py\<close> (\<^verbatim>\<open>BASE_DIR\<close>), whether the mail relay accepts the message, and the mail
  handed to it. \<open>trace\<close> is ghost state, the list of calls made so far; the source has
  no such variable. The clock does not advance during a run.

  Two results of the numeric libraries are not fixed by \<^verbatim>\<open>main.py\<close> or by the
  libraries' documentation, and are taken from the world:
  \<^item> \<open>sort_index keys\<close> is the row order that \<^verbatim>\<open>DataFrame.sort_values(by, ascending=False)\<close>
    computes from the key column, as positions into the frame, best first. The source
    passes no \<^verbatim>\<open>kind\<close>, so the sort is pandas' default \<^verbatim>\<open>quicksort\<close>, which its
    documentation lists as not stable.
  \<^item> \<open>float_sum xs\<close> is the \<^verbatim>\<open>float64\<close> that \<^verbatim>\<open>Series.sum()\<close> returns for the column
    \<open>xs\<close>: each addition rounds, and the order of the additions depends on the
    installed libraries.
\<close>

record world =
  environ :: "string \<rightharpoonup> string"
  files :: "string \<rightharpoonup> blob"
  now :: timestamp
  base_dir :: string
  smtp_up :: bool
  outbox :: "message list"
  trace :: "stage list"
  sort_index :: "float64 list \<Rightarrow> nat list"
  float_sum :: "float64 list \<Rightarrow> float64"

text \<open>
  A function with effects takes the world and returns its result, or the exception it
  raised, together with the world it leaves behind: the effects made before an exception
  stay.
\<close>

type_synonym 'a io = "world \<Rightarrow> (error + 'a) \<times> world"

definition and_then :: "'a io \<Rightarrow> ('a \<Rightarrow> 'b io) \<Rightarrow> 'b io" where
  "and_then m f w = (case m w of (Inl e, w') \<Rightarrow> (Inl e, w') | (Inr x, w') \<Rightarrow> f x w')"

definition return :: "'a \<Rightarrow> 'a io" where
  "return x w = (Inr x, w)"

definition enter :: "stage \<Rightarrow> world \<Rightarrow> world" where
  "enter s w = w\<lparr>trace := trace w @ [s]\<rparr>"

text \<open>\<^verbatim>\<open>os.getenv(name, default)\<close>.\<close>

definition getenv :: "world \<Rightarrow> string \<Rightarrow> string \<Rightarrow> string" where
  "getenv w name dflt = (case environ w name of None \<Rightarrow> dflt | Some v \<Rightarrow> v)"

text \<open>\<^verbatim>\<open>open(path, "rb").read()\<close> and \<^verbatim>\<open>open(path, "w").write(...)\<close>.\<close>

definition read_file :: "string \<Rightarrow> blob io" where
  "read_file path w = (case files w path of None \<Rightarrow> (Inl FileNotFoundError, w) | Some b \<Rightarrow> (Inr b, w))"

definition write_file :: "string \<Rightarrow> blob \<Rightarrow> unit io" where
  "write_file path b w = (Inr (), w\<lparr>files := (files w)(path \<mapsto> b)\<rparr>)"

definition bind_res :: "error + 'a \<Rightarrow> ('a \<Rightarrow> error + 'b) \<Rightarrow> error + 'b" where
  "bind_res r f = (case r of Inl e \<Rightarrow> Inl e | Inr x \<Rightarrow> f x)"

section \<open>The program\<close>

subsection \<open>\<^verbatim>\<open>read_data\<close>\<close>

text \<open>
  \<^verbatim>\<open>pd.read_csv(path, parse_dates=["date"])\<close>: the file must exist and parse as a table, and
  the one column the call names, \<^verbatim>\<open>date\<close>, must be there. No other column is asked for.
\<close>

definition read_csv :: "string \<Rightarrow> dataframe io" where
  "read_csv path w =
     (case files w path of
        None \<Rightarrow> (Inl FileNotFoundError, w)
      | Some (Csv df) \<Rightarrow> (if ''date'' \<in> set (columns df) then (Inr df, w) else (Inl ValueError, w))
      | Some _ \<Rightarrow> (Inl ParserError, w))"

definition data_path :: "world \<Rightarrow> string" where
  "data_path w = path_join (path_join (base_dir w) ''data'') ''sample_sales.csv''"

definition read_data :: "dataframe io" where
  "read_data w = read_csv (data_path w) (enter ReadData w)"

subsection \<open>\<^verbatim>\<open>make_chart\<close>\<close>

text \<open>
  The two columns are read, the figure is described and \<^verbatim>\<open>savefig\<close> writes it to
  \<open>out_path\<close>. The function has no check of its own on the frame. matplotlib draws an
  empty line for an empty column, so the only exception is the \<^verbatim>\<open>KeyError\<close> of a missing
  column.
\<close>

definition revenue_figure :: "date list \<Rightarrow> float64 list \<Rightarrow> figure" where
  "revenue_figure xs ys =
     \<lparr>fig_title = ''Revenue Over Time'', fig_xlabel = ''Date'', fig_ylabel = ''Revenue'',
      fig_line = zip xs ys\<rparr>"

definition make_chart :: "dataframe \<Rightarrow> string \<Rightarrow> unit io" where
  "make_chart df out_path w0 =
     (let w = enter MakeChart w0
      in case getitem df ''date'' date of
           Inl e \<Rightarrow> (Inl e, w)
         | Inr xs \<Rightarrow>
             (case getitem df ''revenue'' revenue of
                Inl e \<Rightarrow> (Inl e, w)
              | Inr ys \<Rightarrow>
                  write_file out_path (Png (revenue_figure xs ys)) w))"

subsection \<open>\<^verbatim>\<open>render_html\<close>\<close>

text \<open>
  Lines 50 to 52 compute the three figures of the report. \<^verbatim>\<open>Series.sum()\<close> on the
  \<^verbatim>\<open>int64\<close> column adds in 64 bits and wraps around; \<^verbatim>\<open>int(...)\<close> reads the result as a
  signed integer.
\<close>

record metrics =
  total_orders :: int
  total_revenue :: float64
  best_row :: sales_row

definition int64_sum :: "64 word list \<Rightarrow> 64 word" where
  "int64_sum xs = foldl (+) 0 xs"

text \<open>Reordering rows by position; a position outside the frame raises \<^verbatim>\<open>IndexError\<close>.\<close>

definition take_rows :: "'a list \<Rightarrow> nat list \<Rightarrow> error + 'a list" where
  "take_rows xs idx =
     (if list_all (\<lambda>i. i < length xs) idx then Inr (map (nth xs) idx) else Inl IndexError)"

text \<open>\<^verbatim>\<open>df.sort_values("revenue", ascending=False)\<close>.\<close>

definition sort_values :: "world \<Rightarrow> dataframe \<Rightarrow> error + dataframe" where
  "sort_values w df =
     bind_res (getitem df ''revenue'' revenue) (\<lambda>keys.
     bind_res (take_rows (records df) (sort_index w keys)) (\<lambda>rs.
     Inr (df\<lparr>records := rs\<rparr>)))"

text \<open>\<^verbatim>\<open>.iloc[0]\<close>.\<close>

definition iloc0 :: "dataframe \<Rightarrow> error + sales_row" where
  "iloc0 df = (case records df of [] \<Rightarrow> Inl IndexError | r # _ \<Rightarrow> Inr r)"

definition compute_metrics :: "world \<Rightarrow> dataframe \<Rightarrow> error + metrics" where
  "compute_metrics w df =
     bind_res (getitem df ''orders'' orders) (\<lambda>os.
     bind_res (getitem df ''revenue'' revenue) (\<lambda>rs.
     bind_res (sort_values w df) (\<lambda>sorted.
     bind_res (iloc0 sorted) (\<lambda>best.
     Inr \<lparr>total_orders = sint (int64_sum os), total_revenue = float_sum w rs,
          best_row = best\<rparr>))))"

text \<open>The keyword arguments of \<^verbatim>\<open>template.render\<close>, lines 54 to 60.\<close>

record row_entry =
  row_date :: string
  row_orders :: int
  row_revenue :: string

record render_args =
  ctx_title :: string
  ctx_generated_at :: string
  ctx_chart_path :: string
  ctx_total_orders :: int
  ctx_total_revenue :: string
  ctx_best_date :: string
  ctx_best_revenue :: string
  ctx_rows :: "row_entry list"

definition report_row :: "date \<times> 64 word \<times> float64 \<Rightarrow> row_entry" where
  "report_row t =
     (case t of (d, o_, r) \<Rightarrow>
        \<lparr>row_date = strftime_date d, row_orders = sint o_, row_revenue = format_currency r\<rparr>)"

definition report_context :: "world \<Rightarrow> dataframe \<Rightarrow> string \<Rightarrow> error + render_args" where
  "report_context w df chart_path =
     bind_res (compute_metrics w df) (\<lambda>m.
     bind_res (getitem df ''date'' date) (\<lambda>ds.
     bind_res (getitem df ''orders'' orders) (\<lambda>os.
     bind_res (getitem df ''revenue'' revenue) (\<lambda>rs.
     Inr \<lparr>ctx_title = getenv w ''REPORT_TITLE'' ''Sales Report'',
          ctx_generated_at = strftime_minute (now w),
          ctx_chart_path = basename chart_path,
          ctx_total_orders = total_orders m,
          ctx_total_revenue = format_currency (total_revenue m),
          ctx_best_date = strftime_date (date (best_row m)),
          ctx_best_revenue = format_currency (revenue (best_row m)),
          ctx_rows = map report_row (zip ds (zip os rs))\<rparr>))))"

text \<open>
  \<^verbatim>\<open>markupsafe.escape\<close>, which Jinja applies to every substituted value when autoescaping
  is on.
\<close>

definition escape_char :: "char \<Rightarrow> string" where
  "escape_char c =
     (if c = CHR ''&'' then ''&amp;''
      else if c = CHR ''<'' then ''&lt;''
      else if c = CHR ''>'' then ''&gt;''
      else if c = CHR 0x27 then ''&#39;''
      else if c = CHR 0x22 then ''&#34;''
      else [c])"

definition escape :: "string \<Rightarrow> string" where
  "escape s = concat (map escape_char s)"

text \<open>
  \<^verbatim>\<open>select_autoescape()\<close> with its default arguments
  (\<^verbatim>\<open>enabled_extensions=("html", "htm", "xml")\<close>, \<^verbatim>\<open>disabled_extensions=()\<close>,
  \<^verbatim>\<open>default=False\<close>), applied to the name of a template: autoescaping is on when the
  lower-cased name ends in one of the enabled extensions, and otherwise takes the
  default.
\<close>

definition select_autoescape :: "string \<Rightarrow> bool" where
  "select_autoescape template_name =
     (let name = lower template_name
      in if endswith name ''.html'' \<or> endswith name ''.htm'' \<or> endswith name ''.xml'' then True
         else False)"

definition emit :: "bool \<Rightarrow> string \<Rightarrow> string" where
  "emit autoescape s = (if autoescape then escape s else s)"

definition lookup :: "render_args \<Rightarrow> placeholder \<Rightarrow> string" where
  "lookup c p =
     (case p of
        PTitle \<Rightarrow> ctx_title c
      | PGeneratedAt \<Rightarrow> ctx_generated_at c
      | PChartPath \<Rightarrow> ctx_chart_path c
      | PTotalOrders \<Rightarrow> show_int (ctx_total_orders c)
      | PTotalRevenue \<Rightarrow> ctx_total_revenue c
      | PBestDate \<Rightarrow> ctx_best_date c
      | PBestRevenue \<Rightarrow> ctx_best_revenue c)"

definition lookup_row :: "row_entry \<Rightarrow> row_placeholder \<Rightarrow> string" where
  "lookup_row r p =
     (case p of
        PRowDate \<Rightarrow> row_date r
      | PRowOrders \<Rightarrow> show_int (row_orders r)
      | PRowRevenue \<Rightarrow> row_revenue r)"

fun render_row_node :: "bool \<Rightarrow> row_entry \<Rightarrow> row_node \<Rightarrow> string" where
  "render_row_node a r (RowLit s) = s"
| "render_row_node a r (RowVar p) = emit a (lookup_row r p)"

definition render_row :: "bool \<Rightarrow> row_node list \<Rightarrow> row_entry \<Rightarrow> string" where
  "render_row a body r = concat (map (render_row_node a r) body)"

fun render_node :: "bool \<Rightarrow> render_args \<Rightarrow> node \<Rightarrow> string" where
  "render_node a c (Lit s) = s"
| "render_node a c (Var p) = emit a (lookup c p)"
| "render_node a c (ForRows body) = concat (map (render_row a body) (ctx_rows c))"

definition render_template :: "bool \<Rightarrow> render_args \<Rightarrow> template \<Rightarrow> string" where
  "render_template a c t = concat (map (render_node a c) t)"

text \<open>\<^verbatim>\<open>env.get_template(name)\<close> with the loader of line 45.\<close>

definition get_template :: "world \<Rightarrow> string \<Rightarrow> error + template" where
  "get_template w name =
     (case files w (path_join (path_join (base_dir w) ''templates'') name) of
        None \<Rightarrow> Inl TemplateNotFound
      | Some (Template t) \<Rightarrow> Inr t
      | Some _ \<Rightarrow> Inl TemplateSyntaxError)"

definition render_html :: "dataframe \<Rightarrow> string \<Rightarrow> string io" where
  "render_html df chart_path w0 =
     (let w = enter RenderHtml w0
      in case get_template w ''report.html.j2'' of
           Inl e \<Rightarrow> (Inl e, w)
         | Inr t \<Rightarrow>
             (case report_context w df chart_path of
                Inl e \<Rightarrow> (Inl e, w)
              | Inr c \<Rightarrow> (Inr (render_template (select_autoescape ''report.html.j2'') c t), w)))"

subsection \<open>\<^verbatim>\<open>export_pdf\<close>\<close>

text \<open>
  The page is drawn in memory and written by \<^verbatim>\<open>c.save()\<close>; before that the chart file is
  opened and decoded, which fails when it is missing or is not an image.
\<close>

definition export_pdf :: "string \<Rightarrow> string \<Rightarrow> string \<Rightarrow> unit io" where
  "export_pdf chart_path pdf_path title w0 =
     (let w = enter ExportPdf w0
      in case files w chart_path of
           None \<Rightarrow> (Inl FileNotFoundError, w)
         | Some (Png fig) \<Rightarrow>
             write_file pdf_path
               (Pdf \<lparr>pdf_title = title,
                     pdf_stamp = ''Generated at: '' @ strftime_minute (now w),
                     pdf_image = fig\<rparr>) w
         | Some _ \<Rightarrow> (Inl OSError, w))"

subsection \<open>\<^verbatim>\<open>send_email\<close>\<close>

text \<open>
  \<^verbatim>\<open>int(s)\<close> for a decimal literal: surrounding whitespace, an optional sign, digits with
  single underscores between them.
\<close>

fun int_digits_ok :: "string \<Rightarrow> bool" where
  "int_digits_ok [] = False"
| "int_digits_ok [c] = is_digit c"
| "int_digits_ok (c # d # cs) =
     (is_digit c \<and> (if d = CHR ''_'' then int_digits_ok cs else int_digits_ok (d # cs)))"

definition py_int :: "string \<Rightarrow> error + int" where
  "py_int s =
     (let t = strip s;
          signed = (t \<noteq> [] \<and> (hd t = CHR ''-'' \<or> hd t = CHR ''+''));
          body = (if signed then tl t else t);
          n = int (read_nat (filter (\<lambda>c. c \<noteq> CHR ''_'') body))
      in if int_digits_ok body then Inr (if signed \<and> hd t = CHR ''-'' then - n else n)
         else Inl ValueError)"

text \<open>Truth of \<^verbatim>\<open>os.getenv(name)\<close> in \<^verbatim>\<open>all([...])\<close>: set and not empty.\<close>

definition truthy :: "string option \<Rightarrow> bool" where
  "truthy v = (case v of None \<Rightarrow> False | Some s \<Rightarrow> s \<noteq> [])"

text \<open>\<^verbatim>\<open>maintype, subtype = mime.split("/", 1)\<close>: two parts, or the unpacking fails.\<close>

definition split_mime :: "string \<Rightarrow> error + string \<times> string" where
  "split_mime mime =
     (if CHR ''/'' \<in> set mime
      then Inr (takeWhile (\<lambda>c. c \<noteq> CHR ''/'') mime, tl (dropWhile (\<lambda>c. c \<noteq> CHR ''/'') mime))
      else Inl ValueError)"

fun add_attachments :: "attachment list \<Rightarrow> error + (string \<times> string \<times> string \<times> blob) list" where
  "add_attachments [] = Inr []"
| "add_attachments ((fname, fbytes, mime) # rest) =
     bind_res (split_mime mime) (\<lambda>(maintype, subtype).
     bind_res (add_attachments rest) (\<lambda>more.
     Inr ((maintype, subtype, fname, fbytes) # more)))"

definition send_email :: "string \<Rightarrow> string \<Rightarrow> attachment list \<Rightarrow> unit io" where
  "send_email subject html_body attachments w0 =
     (let w = enter (SendEmail subject html_body attachments) w0;
          smtp_host = environ w ''SMTP_HOST'';
          smtp_user = environ w ''SMTP_USER'';
          smtp_pass = environ w ''SMTP_PASS''
      in case py_int (getenv w ''SMTP_PORT'' ''587'') of
           Inl e \<Rightarrow> (Inl e, w)
         | Inr smtp_port \<Rightarrow>
             (case (case environ w ''MAIL_TO'' of None \<Rightarrow> smtp_user | Some v \<Rightarrow> Some v) of
                None \<Rightarrow> (Inl AttributeError, w)
              | Some recipients \<Rightarrow>
                  (let mail_to = filter (\<lambda>a. a \<noteq> []) (map strip (split_on CHR '','' recipients))
                   in if \<not> (truthy smtp_host \<and> truthy smtp_user \<and> truthy smtp_pass)
                      then (Inl RuntimeError, w)
                      else
                        (case add_attachments attachments of
                           Inl e \<Rightarrow> (Inl e, w)
                         | Inr parts \<Rightarrow>
                             if smtp_up w
                             then (Inr (),
                                   w\<lparr>outbox := outbox w @
                                     [\<lparr>msg_subject = subject,
                                       msg_from = getenv w ''MAIL_FROM'' (case smtp_user of None \<Rightarrow> [] | Some u \<Rightarrow> u),
                                       msg_to = join_comma mail_to,
                                       msg_text = ''Your email client does not support HTML.'',
                                       msg_html = html_body,
                                       msg_attachments = parts\<rparr>]\<rparr>)
                             else (Inl SMTPException, w)))))"

subsection \<open>\<^verbatim>\<open>build_and_send\<close>\<close>

text \<open>
  Directories are not modelled, so \<^verbatim>\<open>os.makedirs\<close> has no counterpart, and writing a file
  never fails. Line 125 is \<^verbatim>\<open>os.getenv("ENABLE_PDF", "true").lower() == "true"\<close>.
\<close>

definition enable_pdf :: "world \<Rightarrow> bool" where
  "enable_pdf w = (lower (getenv w ''ENABLE_PDF'' ''true'') = ''true'')"

definition chart_file :: "world \<Rightarrow> string" where
  "chart_file w = path_join (path_join (base_dir w) ''out'') ''revenue_chart.png''"

definition html_file :: "world \<Rightarrow> string" where
  "html_file w = path_join (path_join (base_dir w) ''out'') ''report.html''"

definition pdf_file :: "world \<Rightarrow> string" where
  "pdf_file w = path_join (path_join (base_dir w) ''out'') ''report.pdf''"

text \<open>Lines 121 to 130: the chart is always attached, the PDF after it when enabled.\<close>

definition collect_attachments :: "(attachment list) io" where
  "collect_attachments =
     and_then (\<lambda>w. read_file (chart_file w) w) (\<lambda>chart.
     (\<lambda>w. if enable_pdf w
          then and_then (export_pdf (chart_file w) (pdf_file w) (getenv w ''REPORT_TITLE'' ''Sales Report''))
                 (\<lambda>_. and_then (read_file (pdf_file w))
                 (\<lambda>pdf. return [(''revenue_chart.png'', chart, ''image/png''),
                               (''report.pdf'', pdf, ''application/pdf'')])) w
          else return [(''revenue_chart.png'', chart, ''image/png'')] w))"

definition build_and_send :: "unit io" where
  "build_and_send =
     and_then read_data (\<lambda>df.
     and_then (\<lambda>w. make_chart df (chart_file w) w) (\<lambda>_.
     and_then (\<lambda>w. render_html df (chart_file w) w) (\<lambda>html.
     and_then (\<lambda>w. write_file (html_file w) (Text html) w) (\<lambda>_.
     and_then collect_attachments (\<lambda>attachments.
     (\<lambda>w. send_email (getenv w ''REPORT_TITLE'' ''Sales Report'') html attachments w))))))"

section \<open>What a run builds\<close>

text \<open>
  Names for the values that the statements below speak of: the chart bytes and the PDF
  bytes of a dataset, the attachment list they make up, the world at the point where
  the attachments are collected, and the entry of a record in the row listing.
\<close>

definition chart_blob :: "dataframe \<Rightarrow> blob" where
  "chart_blob df = Png (revenue_figure (map date (records df)) (map revenue (records df)))"

definition pdf_blob :: "world \<Rightarrow> dataframe \<Rightarrow> blob" where
  "pdf_blob w df =
     Pdf \<lparr>pdf_title = getenv w ''REPORT_TITLE'' ''Sales Report'',
          pdf_stamp = ''Generated at: '' @ strftime_minute (now w),
          pdf_image = revenue_figure (map date (records df)) (map revenue (records df))\<rparr>"

definition expected_attachments :: "world \<Rightarrow> dataframe \<Rightarrow> attachment list" where
  "expected_attachments w df =
     (if enable_pdf w
      then [(''revenue_chart.png'', chart_blob df, ''image/png''),
            (''report.pdf'', pdf_blob w df, ''application/pdf'')]
      else [(''revenue_chart.png'', chart_blob df, ''image/png'')])"

text \<open>The world after the report has been written: the state in which the attachments are collected.\<close>

definition rendered :: "world \<Rightarrow> dataframe \<Rightarrow> string \<Rightarrow> world" where
  "rendered w df html =
     w\<lparr>trace := trace w @ [ReadData, MakeChart, RenderHtml],
       files := (files w)(chart_file w \<mapsto> chart_blob df, html_file w \<mapsto> Text html)\<rparr>"




section \<open>Concrete platforms and runs\<close>

text \<open>
  Rounding to \<^verbatim>\<open>float64\<close>: 53 significant bits, to nearest, ties to even (the normal
  range only; overflow and subnormal numbers are left out). \<open>binary64_add\<close> is the
  addition of two floats, and \<open>sum_in_order\<close> adds a column from its first value to its
  last, which is what both numpy and bottleneck do for a column of fewer than eight
  values.
\<close>

definition pow2 :: "int \<Rightarrow> rat" where
  "pow2 e = (if 0 \<le> e then 2 ^ nat e else 1 / 2 ^ nat (- e))"

function bit_length :: "int \<Rightarrow> int" where
  "bit_length n = (if n \<le> 0 then 0 else 1 + bit_length (n div 2))"
  by pat_completeness auto
termination
  by (relation "measure nat") auto

declare bit_length.simps [simp del]

definition floor_log2 :: "rat \<Rightarrow> int" where
  "floor_log2 q =
     (case quotient_of q of (n, d) \<Rightarrow>
        (let e = bit_length n - bit_length d
         in if pow2 e \<le> q then e else e - 1))"

definition binary64_round :: "rat \<Rightarrow> float64" where
  "binary64_round q =
     (if q = 0 then 0
      else (let u = pow2 (floor_log2 \<bar>q\<bar> - 52) in of_int (round_half_even (q / u)) * u))"

definition binary64_add :: "float64 \<Rightarrow> float64 \<Rightarrow> float64" where
  "binary64_add a b = binary64_round (a + b)"

definition sum_in_order :: "float64 list \<Rightarrow> float64" where
  "sum_in_order xs = foldl binary64_add 0 xs"

text \<open>
  Two sorts that both put the keys in descending order. The first keeps rows with equal
  keys in the order of the frame. The second sorts ascending and reverses the result,
  which turns rows with equal keys around.
\<close>

definition stable_sort_index :: "float64 list \<Rightarrow> nat list" where
  "stable_sort_index keys = sort_key (\<lambda>i. - (keys ! i)) [0..<length keys]"


definition sample_frame :: dataframe where
  "sample_frame =
     \<lparr>columns = [''date'', ''orders'', ''revenue''],
      records =
        [\<lparr>date = \<lparr>year = 2024, month = 1, day = 1\<rparr>, orders = 10, revenue = 100\<rparr>,
         \<lparr>date = \<lparr>year = 2024, month = 1, day = 2\<rparr>, orders = 5, revenue = 250\<rparr>]\<rparr>"

definition sample_template :: template where
  "sample_template =
     [Lit ''<h1>'', Var PTitle, Lit ''</h1><p>'', Var PGeneratedAt, Lit ''</p><img src='',
      Var PChartPath, Lit ''><p>'', Var PTotalOrders, Lit '' orders, '', Var PTotalRevenue,
      Lit ''; best '', Var PBestDate, Lit '' '', Var PBestRevenue, Lit ''</p><table>'',
      ForRows [RowLit ''<tr><td>'', RowVar PRowDate, RowLit ''</td><td>'', RowVar PRowOrders,
        RowLit ''</td><td>'', RowVar PRowRevenue, RowLit ''</td></tr>''],
      Lit ''</table>'']"

text \<open>A run in \<open>/srv/report\<close> with the mail settings made, on a given environment and dataset.\<close>

definition mail_settings :: "string \<rightharpoonup> string" where
  "mail_settings =
     [''SMTP_HOST'' \<mapsto> ''mail.example.org'', ''SMTP_USER'' \<mapsto> ''reports@example.org'',
      ''SMTP_PASS'' \<mapsto> ''secret'']"

definition sample_world :: "(string \<rightharpoonup> string) \<Rightarrow> dataframe \<Rightarrow> world" where
  "sample_world env df =
     \<lparr>environ = env,
      files = [''/srv/report/data/sample_sales.csv'' \<mapsto> Csv df,
               ''/srv/report/templates/report.html.j2'' \<mapsto> Template sample_template],
      now = \<lparr>year = 2024, month = 1, day = 3, hour = 9, minute = 0\<rparr>,
      base_dir = ''/srv/report'',
      smtp_up = True,
      outbox = [],
      trace = [],
      sort_index = stable_sort_index,
      float_sum = sum_in_order\<rparr>"

text \<open>The dataset without its \<^verbatim>\<open>revenue\<close> column, and the dataset with no rows.\<close>

definition frame_without_revenue :: dataframe where
  "frame_without_revenue = sample_frame\<lparr>columns := [''date'', ''orders'']\<rparr>"

definition empty_frame :: dataframe where
  "empty_frame = \<lparr>columns = [''date'', ''orders'', ''revenue''], records = []\<rparr>"




section \<open>Decimal digits and the currency format\<close>

























section \<open>The stages and what they leave behind\<close>

text \<open>
  Each stage appends itself to the trace and changes nothing else, except for the file
  it writes. The lemmas of this section give the result and the world after each stage.
\<close>

lemma and_then_Inl: "fst (m w) = Inl e \<Longrightarrow> and_then m f w = (Inl e, snd (m w))"
  by (cases "m w") (simp add: and_then_def)

lemma and_then_Inr: "fst (m w) = Inr x \<Longrightarrow> and_then m f w = f x (snd (m w))"
  by (cases "m w") (simp add: and_then_def)

lemma enter_fields [simp]:
  "environ (enter s w) = environ w" "files (enter s w) = files w" "now (enter s w) = now w"
  "base_dir (enter s w) = base_dir w" "smtp_up (enter s w) = smtp_up w"
  "outbox (enter s w) = outbox w" "trace (enter s w) = trace w @ [s]"
  "sort_index (enter s w) = sort_index w" "float_sum (enter s w) = float_sum w"
  by (simp_all add: enter_def)

lemma getenv_enter [simp]: "getenv (enter s w) n d = getenv w n d"
  by (simp add: getenv_def)

lemma read_data_snd [simp]: "snd (read_data w) = enter ReadData w"
  by (simp add: read_data_def read_csv_def split: option.splits blob.splits)

lemma read_data_fst:
  "fst (read_data w) =
     (case files w (data_path w) of
        None \<Rightarrow> Inl FileNotFoundError
      | Some (Csv df) \<Rightarrow> (if ''date'' \<in> set (columns df) then Inr df else Inl ValueError)
      | Some _ \<Rightarrow> Inl ParserError)"
  by (simp add: read_data_def read_csv_def data_path_def split: option.splits blob.splits)

lemma make_chart_fst:
  "fst (make_chart df p w) =
     (if ''date'' \<in> set (columns df) \<and> ''revenue'' \<in> set (columns df) then Inr () else Inl KeyError)"
  by (simp add: make_chart_def getitem_def write_file_def Let_def)

lemma make_chart_snd:
  "snd (make_chart df p w) =
     (if ''date'' \<in> set (columns df) \<and> ''revenue'' \<in> set (columns df)
      then (enter MakeChart w)\<lparr>files := (files w)(p \<mapsto> chart_blob df)\<rparr>
      else enter MakeChart w)"
  by (simp add: make_chart_def getitem_def write_file_def Let_def chart_blob_def)

lemma sort_values_enter [simp]: "sort_values (enter s w) df = sort_values w df"
  by (simp add: sort_values_def)

lemma compute_metrics_enter [simp]: "compute_metrics (enter s w) df = compute_metrics w df"
  by (simp add: compute_metrics_def)

lemma report_context_enter [simp]: "report_context (enter s w) df p = report_context w df p"
  by (simp add: report_context_def strftime_minute_def)

lemma get_template_enter [simp]: "get_template (enter s w) n = get_template w n"
  by (simp add: get_template_def)

lemma render_html_snd [simp]: "snd (render_html df p w) = enter RenderHtml w"
  by (simp add: render_html_def Let_def split: sum.splits)

lemma render_html_fst:
  "fst (render_html df p w) =
     bind_res (get_template w ''report.html.j2'') (\<lambda>t.
     bind_res (report_context w df p) (\<lambda>c.
     Inr (render_template (select_autoescape ''report.html.j2'') c t)))"
  by (simp add: render_html_def Let_def bind_res_def split: sum.splits)

lemma send_email_trace [simp]:
  "trace (snd (send_email s h a w)) = trace w @ [SendEmail s h a]"
  by (simp add: send_email_def Let_def split: sum.splits option.splits)

lemma path_join_last: "b \<noteq> [] \<Longrightarrow> hd b \<noteq> CHR ''/'' \<Longrightarrow> last (path_join a b) = last b"
  by (simp add: path_join_def)

lemma out_files_distinct:
  "chart_file w \<noteq> html_file w" "chart_file w \<noteq> pdf_file w" "html_file w \<noteq> pdf_file w"
proof -
  have "last (chart_file w) = CHR ''g''" by (simp add: chart_file_def path_join_last)
  moreover have "last (html_file w) = CHR ''l''" by (simp add: html_file_def path_join_last)
  moreover have "last (pdf_file w) = CHR ''f''" by (simp add: pdf_file_def path_join_last)
  ultimately show "chart_file w \<noteq> html_file w" "chart_file w \<noteq> pdf_file w"
    "html_file w \<noteq> pdf_file w"
    by auto
qed

lemma rendered_fields [simp]:
  "environ (rendered w df html) = environ w" "now (rendered w df html) = now w"
  "base_dir (rendered w df html) = base_dir w" "smtp_up (rendered w df html) = smtp_up w"
  "outbox (rendered w df html) = outbox w"
  "trace (rendered w df html) = trace w @ [ReadData, MakeChart, RenderHtml]"
  by (simp_all add: rendered_def)

lemma file_names_rendered [simp]:
  "chart_file (rendered w df html) = chart_file w" "pdf_file (rendered w df html) = pdf_file w"
  "html_file (rendered w df html) = html_file w" "enable_pdf (rendered w df html) = enable_pdf w"
  "getenv (rendered w df html) n d = getenv w n d"
  by (simp_all add: chart_file_def pdf_file_def html_file_def enable_pdf_def getenv_def)

lemma files_rendered [simp]:
  "files (rendered w df html) = (files w)(chart_file w \<mapsto> chart_blob df, html_file w \<mapsto> Text html)"
  by (simp add: rendered_def)

lemma pdf_blob_rendered [simp]: "pdf_blob (rendered w df html) df' = pdf_blob w df'"
  by (simp add: pdf_blob_def)

lemma collect_attachments_rendered:
  "collect_attachments (rendered w df html) =
     (if enable_pdf w
      then (Inr [(''revenue_chart.png'', chart_blob df, ''image/png''),
                 (''report.pdf'', pdf_blob w df, ''application/pdf'')],
            (enter ExportPdf (rendered w df html))
              \<lparr>files := (files (rendered w df html))(pdf_file w \<mapsto> pdf_blob w df)\<rparr>)
      else (Inr [(''revenue_chart.png'', chart_blob df, ''image/png'')], rendered w df html))"
proof -
  let ?r = "rendered w df html"
  have f: "files ?r (chart_file w) = Some (chart_blob df)"
    using out_files_distinct [of w] by simp
  have rd: "read_file (chart_file w) ?r = (Inr (chart_blob df), ?r)"
    by (simp only: read_file_def f option.case)
  show ?thesis
  proof (cases "enable_pdf w")
    case False
    then show ?thesis
      by (simp add: collect_attachments_def and_then_def rd return_def)
  next
    case True
    let ?e = "(enter ExportPdf ?r)\<lparr>files := (files ?r)(pdf_file w \<mapsto> pdf_blob w df)\<rparr>"
    have ex: "export_pdf (chart_file w) (pdf_file w) (getenv w ''REPORT_TITLE'' ''Sales Report'') ?r
        = (Inr (), ?e)"
      using f by (simp add: export_pdf_def Let_def write_file_def chart_blob_def pdf_blob_def)
    have rp: "read_file (pdf_file w) ?e = (Inr (pdf_blob w df), ?e)"
      by (simp add: read_file_def)
    have "collect_attachments ?r =
        and_then (read_file (pdf_file w))
          (\<lambda>pdf. return [(''revenue_chart.png'', chart_blob df, ''image/png''),
                          (''report.pdf'', pdf, ''application/pdf'')]) ?e"
      using True by (simp add: collect_attachments_def and_then_def rd ex)
    also have "\<dots> = (Inr [(''revenue_chart.png'', chart_blob df, ''image/png''),
                          (''report.pdf'', pdf_blob w df, ''application/pdf'')], ?e)"
      by (simp only: and_then_def rp return_def prod.case sum.case)
    finally show ?thesis using True by simp
  qed
qed

section \<open>A run, stage by stage\<close>

lemma template_file_not_chart:
  "path_join (path_join (base_dir w) ''templates'') ''report.html.j2'' \<noteq> chart_file w"
proof -
  have "last (path_join (path_join (base_dir w) ''templates'') ''report.html.j2'') = CHR ''2''"
    by (simp add: path_join_last)
  moreover have "last (chart_file w) = CHR ''g''" by (simp add: chart_file_def path_join_last)
  ultimately show ?thesis by auto
qed

lemma report_context_files [simp]:
  "report_context (w\<lparr>files := f\<rparr>) df p = report_context w df p"
  by (simp add: report_context_def compute_metrics_def sort_values_def getenv_def)

lemma render_html_after_chart:
  "fst (render_html df p ((enter MakeChart (enter ReadData w))\<lparr>files := (files w)(chart_file w \<mapsto> b)\<rparr>))
     = fst (render_html df p w)"
  using template_file_not_chart [of w]
  by (simp add: render_html_fst get_template_def)

lemma build_and_send_unfold:
  "build_and_send w =
     (case fst (read_data w) of
        Inl e \<Rightarrow> (Inl e, enter ReadData w)
      | Inr df \<Rightarrow>
          if \<not> (''date'' \<in> set (columns df) \<and> ''revenue'' \<in> set (columns df))
          then (Inl KeyError, enter MakeChart (enter ReadData w))
          else (case fst (render_html df (chart_file w) w) of
                  Inl e \<Rightarrow>
                    (Inl e, enter RenderHtml ((enter MakeChart (enter ReadData w))
                       \<lparr>files := (files w)(chart_file w \<mapsto> chart_blob df)\<rparr>))
                | Inr html \<Rightarrow>
                    and_then collect_attachments
                      (\<lambda>attachments w'. send_email (getenv w' ''REPORT_TITLE'' ''Sales Report'')
                          html attachments w')
                      (rendered w df html)))"
proof (cases "fst (read_data w)")
  case (Inl e)
  then show ?thesis by (simp add: build_and_send_def and_then_Inl)
next
  case (Inr df)
  let ?w1 = "enter ReadData w"
  have cf: "chart_file ?w1 = chart_file w" by (simp add: chart_file_def)
  have s1: "build_and_send w =
      and_then (\<lambda>w. make_chart df (chart_file w) w) (\<lambda>_.
      and_then (\<lambda>w. render_html df (chart_file w) w) (\<lambda>html.
      and_then (\<lambda>w. write_file (html_file w) (Text html) w) (\<lambda>_.
      and_then collect_attachments (\<lambda>attachments.
      (\<lambda>w. send_email (getenv w ''REPORT_TITLE'' ''Sales Report'') html attachments w))))) ?w1"
    unfolding build_and_send_def using Inr by (simp add: and_then_Inr)
  show ?thesis
  proof (cases "''date'' \<in> set (columns df) \<and> ''revenue'' \<in> set (columns df)")
    case False
    then have "fst (make_chart df (chart_file ?w1) ?w1) = Inl KeyError"
      and "snd (make_chart df (chart_file ?w1) ?w1) = enter MakeChart ?w1"
      by (simp_all only: make_chart_fst make_chart_snd if_False)
    then have "build_and_send w = (Inl KeyError, enter MakeChart ?w1)"
      unfolding s1 by (simp add: and_then_Inl)
    with Inr False show ?thesis by (simp only: sum.case if_True simp_thms)
  next
    case True
    let ?w2 = "(enter MakeChart ?w1)\<lparr>files := (files w)(chart_file w \<mapsto> chart_blob df)\<rparr>"
    have cf2: "chart_file ?w2 = chart_file w" "html_file (enter RenderHtml ?w2) = html_file w"
      by (simp_all add: chart_file_def html_file_def)
    from True have "fst (make_chart df (chart_file ?w1) ?w1) = Inr ()"
      and "snd (make_chart df (chart_file ?w1) ?w1) = ?w2"
      by (simp_all add: make_chart_fst make_chart_snd cf)
    then have s2: "build_and_send w =
      and_then (\<lambda>w. render_html df (chart_file w) w) (\<lambda>html.
      and_then (\<lambda>w. write_file (html_file w) (Text html) w) (\<lambda>_.
      and_then collect_attachments (\<lambda>attachments.
      (\<lambda>w. send_email (getenv w ''REPORT_TITLE'' ''Sales Report'') html attachments w)))) ?w2"
      unfolding s1 by (simp add: and_then_Inr)
    have r: "fst (render_html df (chart_file ?w2) ?w2) = fst (render_html df (chart_file w) w)"
      unfolding cf2 by (rule render_html_after_chart)
    show ?thesis
    proof (cases "fst (render_html df (chart_file w) w)")
      case (Inl e)
      with r have "build_and_send w = (Inl e, enter RenderHtml ?w2)"
        unfolding s2 by (simp add: and_then_Inl)
      with Inr True Inl show ?thesis by (simp only: sum.case if_False simp_thms)
    next
      case html: (Inr html)
      have w4: "snd (write_file (html_file w) (Text html) (enter RenderHtml ?w2)) = rendered w df html"
        by (simp add: write_file_def rendered_def enter_def)
      have f4: "fst (write_file (html_file w) (Text html) (enter RenderHtml ?w2)) = Inr ()"
        by (simp add: write_file_def)
      from r html have "build_and_send w =
          and_then (\<lambda>w. write_file (html_file w) (Text html) w) (\<lambda>_.
          and_then collect_attachments (\<lambda>attachments.
          (\<lambda>w. send_email (getenv w ''REPORT_TITLE'' ''Sales Report'') html attachments w)))
          (enter RenderHtml ?w2)"
        unfolding s2 by (simp add: and_then_Inr)
      also have "\<dots> = and_then collect_attachments (\<lambda>attachments.
          (\<lambda>w. send_email (getenv w ''REPORT_TITLE'' ''Sales Report'') html attachments w))
          (rendered w df html)"
        using f4 w4 by (simp add: and_then_Inr cf2)
      finally show ?thesis using Inr True html by (simp only: sum.case if_False simp_thms)
    qed
  qed
qed

lemma send_after_collect:
  "trace (snd (and_then collect_attachments
      (\<lambda>attachments w'. send_email (getenv w' ''REPORT_TITLE'' ''Sales Report'') html attachments w')
      (rendered w df html)))
   = trace w @ [ReadData, MakeChart, RenderHtml] @ (if enable_pdf w then [ExportPdf] else [])
       @ [SendEmail (getenv w ''REPORT_TITLE'' ''Sales Report'') html (expected_attachments w df)]"
  by (simp add: and_then_def collect_attachments_rendered expected_attachments_def getenv_def)

lemma build_and_send_trace:
  "trace (snd (build_and_send w)) =
     (case fst (read_data w) of
        Inl e \<Rightarrow> trace w @ [ReadData]
      | Inr df \<Rightarrow>
          if \<not> (''date'' \<in> set (columns df) \<and> ''revenue'' \<in> set (columns df))
          then trace w @ [ReadData, MakeChart]
          else (case fst (render_html df (chart_file w) w) of
                  Inl e \<Rightarrow> trace w @ [ReadData, MakeChart, RenderHtml]
                | Inr html \<Rightarrow>
                    trace w @ [ReadData, MakeChart, RenderHtml]
                      @ (if enable_pdf w then [ExportPdf] else [])
                      @ [SendEmail (getenv w ''REPORT_TITLE'' ''Sales Report'') html (expected_attachments w df)]))"
  by (simp add: build_and_send_unfold send_after_collect split: sum.splits)

lemma sent_attachments:
  assumes "trace w = []"
    and "SendEmail s h atts \<in> set (trace (snd (build_and_send w)))"
  shows "\<exists>df. fst (read_data w) = Inr df \<and> fst (render_html df (chart_file w) w) = Inr h
      \<and> s = getenv w ''REPORT_TITLE'' ''Sales Report'' \<and> atts = expected_attachments w df
      \<and> trace (snd (build_and_send w))
          = [ReadData, MakeChart, RenderHtml] @ (if enable_pdf w then [ExportPdf] else [])
              @ [SendEmail s h atts]"
  using assms
  by (auto simp: build_and_send_trace split: sum.splits if_splits)

section \<open>The attachments\<close>

lemma report_context_ok:
  assumes "compute_metrics w df = Inr m" and "''date'' \<in> set (columns df)"
  shows "\<exists>c. report_context w df p = Inr c"
proof -
  from assms(1) have "''orders'' \<in> set (columns df)" "''revenue'' \<in> set (columns df)"
    by (auto simp: compute_metrics_def bind_res_def getitem_def split: if_splits)
  with assms show ?thesis
    by (simp add: report_context_def bind_res_def getitem_def)
qed

lemma run_reaches_send:
  assumes "files w (data_path w) = Some (Csv df)" and "''date'' \<in> set (columns df)"
    and "compute_metrics w df = Inr m" and "get_template w ''report.html.j2'' = Inr t"
    and "trace w = []"
  shows "\<exists>h. trace (snd (build_and_send w)) =
      [ReadData, MakeChart, RenderHtml] @ (if enable_pdf w then [ExportPdf] else [])
        @ [SendEmail (getenv w ''REPORT_TITLE'' ''Sales Report'') h (expected_attachments w df)]"
proof -
  from assms(3) have rev: "''revenue'' \<in> set (columns df)"
    by (auto simp: compute_metrics_def bind_res_def getitem_def split: if_splits)
  from assms(1,2) have rd: "fst (read_data w) = Inr df" by (simp add: read_data_fst)
  from report_context_ok [OF assms(3,2)] obtain c where "report_context w df (chart_file w) = Inr c"
    by blast
  with assms(4) have "\<exists>h. fst (render_html df (chart_file w) w) = Inr h"
    by (simp add: render_html_fst bind_res_def)
  then obtain h where "fst (render_html df (chart_file w) w) = Inr h" by blast
  with rd rev assms(2,5) show ?thesis by (simp add: build_and_send_trace)
qed

text \<open>
  Claim C5. In every run that hands a bundle to the mailer, the attachment list is exactly
  the chart, named \<^verbatim>\<open>revenue_chart.png\<close> with type \<^verbatim>\<open>image/png\<close>, followed when PDF
  export is enabled by the PDF, named \<^verbatim>\<open>report.pdf\<close> with type \<^verbatim>\<open>application/pdf\<close>; with
  PDF export disabled it is the chart alone. The chart bytes are the picture of the
  dataset that was read, the PDF bytes the page that embeds this picture.
\<close>

theorem attachments_exact:
  assumes "trace w = []"
    and "SendEmail subject html atts \<in> set (trace (snd (build_and_send w)))"
  shows "\<exists>df. fst (read_data w) = Inr df
      \<and> (enable_pdf w \<longrightarrow>
           atts = [(''revenue_chart.png'', chart_blob df, ''image/png''),
                   (''report.pdf'', pdf_blob w df, ''application/pdf'')])
      \<and> (\<not> enable_pdf w \<longrightarrow> atts = [(''revenue_chart.png'', chart_blob df, ''image/png'')])"
proof -
  from sent_attachments [OF assms] obtain df where
    "fst (read_data w) = Inr df" and "atts = expected_attachments w df"
    by blast
  then show ?thesis by (auto simp: expected_attachments_def)
qed

lemma sample_read: "fst (read_data (sample_world env df)) =
    (if ''date'' \<in> set (columns df) then Inr df else Inl ValueError)"
  by (simp add: read_data_fst sample_world_def data_path_def path_join_def)

lemma sample_template_found:
  "get_template (sample_world env df) ''report.html.j2'' = Inr sample_template"
  by (simp add: get_template_def sample_world_def path_join_def)

lemma sample_metrics:
  "compute_metrics (sample_world env sample_frame) sample_frame =
     Inr \<lparr>total_orders = 15, total_revenue = 350,
          best_row = \<lparr>date = \<lparr>year = 2024, month = 1, day = 2\<rparr>, orders = 5, revenue = 250\<rparr>\<rparr>"
  by code_simp

lemma sample_run:
  "\<exists>h. trace (snd (build_and_send (sample_world env sample_frame))) =
      [ReadData, MakeChart, RenderHtml]
        @ (if enable_pdf (sample_world env sample_frame) then [ExportPdf] else [])
        @ [SendEmail (getenv (sample_world env sample_frame) ''REPORT_TITLE'' ''Sales Report'') h
             (expected_attachments (sample_world env sample_frame) sample_frame)]"
proof (rule run_reaches_send)
  show "files (sample_world env sample_frame) (data_path (sample_world env sample_frame))
      = Some (Csv sample_frame)"
    by (simp add: sample_world_def data_path_def path_join_def)
  show "''date'' \<in> set (columns sample_frame)" by (simp add: sample_frame_def)
  show "compute_metrics (sample_world env sample_frame) sample_frame =
     Inr \<lparr>total_orders = 15, total_revenue = 350,
          best_row = \<lparr>date = \<lparr>year = 2024, month = 1, day = 2\<rparr>, orders = 5, revenue = 250\<rparr>\<rparr>"
    by (rule sample_metrics)
  show "get_template (sample_world env sample_frame) ''report.html.j2'' = Inr sample_template"
    by (rule sample_template_found)
  show "trace (sample_world env sample_frame) = []" by (simp add: sample_world_def)
qed

lemma enable_pdf_default: "enable_pdf (sample_world mail_settings df)"
  by (simp add: enable_pdf_def getenv_def sample_world_def mail_settings_def lower_def
      lower_char_def)

text \<open>The run on the two-row dataset with the default settings sends both attachments.\<close>

theorem attachments_exact_witness:
  "\<exists>subject html atts.
     trace (sample_world mail_settings sample_frame) = []
     \<and> SendEmail subject html atts
          \<in> set (trace (snd (build_and_send (sample_world mail_settings sample_frame))))
     \<and> atts = [(''revenue_chart.png'', chart_blob sample_frame, ''image/png''),
               (''report.pdf'', pdf_blob (sample_world mail_settings sample_frame) sample_frame,
                ''application/pdf'')]"
proof -
  let ?w = "sample_world mail_settings sample_frame"
  have t0: "trace ?w = []" by (simp add: sample_world_def)
  from sample_run [of mail_settings] obtain h where
    tr: "trace (snd (build_and_send ?w)) =
      [ReadData, MakeChart, RenderHtml] @ (if enable_pdf ?w then [ExportPdf] else [])
        @ [SendEmail (getenv ?w ''REPORT_TITLE'' ''Sales Report'') h
             (expected_attachments ?w sample_frame)]"
    by blast
  then have mem: "SendEmail (getenv ?w ''REPORT_TITLE'' ''Sales Report'') h
      (expected_attachments ?w sample_frame) \<in> set (trace (snd (build_and_send ?w)))"
    by simp
  from attachments_exact [OF t0 mem] obtain df where
    df: "fst (read_data ?w) = Inr df"
    and a: "enable_pdf ?w \<longrightarrow> expected_attachments ?w sample_frame =
        [(''revenue_chart.png'', chart_blob df, ''image/png''),
         (''report.pdf'', pdf_blob ?w df, ''application/pdf'')]"
    by blast
  from df have "df = sample_frame" by (simp add: sample_read sample_frame_def)
  with a enable_pdf_default [of sample_frame] t0 mem show ?thesis by blast
qed

section \<open>The PDF switch\<close>

lemma lower_char_t: "(lower_char c = CHR ''t'') = (c = CHR ''t'' \<or> c = CHR ''T'')"
  by (auto simp: lower_char_def split: if_splits)

lemma lower_char_r: "(lower_char c = CHR ''r'') = (c = CHR ''r'' \<or> c = CHR ''R'')"
  by (auto simp: lower_char_def split: if_splits)

lemma lower_char_u: "(lower_char c = CHR ''u'') = (c = CHR ''u'' \<or> c = CHR ''U'')"
  by (auto simp: lower_char_def split: if_splits)

lemma lower_char_e: "(lower_char c = CHR ''e'') = (c = CHR ''e'' \<or> c = CHR ''E'')"
  by (auto simp: lower_char_def split: if_splits)

lemma lower_true:
  "(lower v = ''true'') =
     (\<exists>a b c d. v = [a, b, c, d] \<and> (a = CHR ''t'' \<or> a = CHR ''T'') \<and> (b = CHR ''r'' \<or> b = CHR ''R'')
        \<and> (c = CHR ''u'' \<or> c = CHR ''U'') \<and> (d = CHR ''e'' \<or> d = CHR ''E''))"
proof -
  have "(lower v = ''true'') =
      (\<exists>a b c d. v = [a, b, c, d] \<and> lower_char a = CHR ''t'' \<and> lower_char b = CHR ''r''
         \<and> lower_char c = CHR ''u'' \<and> lower_char d = CHR ''e'')"
    unfolding lower_def by (auto simp: map_eq_Cons_conv)
  then show ?thesis by (simp only: lower_char_t lower_char_r lower_char_u lower_char_e)
qed

lemma no_export_when_disabled:
  assumes "trace w = []" and "\<not> enable_pdf w"
  shows "ExportPdf \<notin> set (trace (snd (build_and_send w)))"
  using assms by (auto simp: build_and_send_trace split: sum.splits if_splits)

text \<open>
  Claim C10. PDF export is enabled exactly when the value of \<^verbatim>\<open>ENABLE_PDF\<close>, lower-cased,
  is the string \<^verbatim>\<open>true\<close>, an unset variable counting as enabled; the values that
  lower-case to \<^verbatim>\<open>true\<close> are its sixteen spellings in upper and lower case. The values
  \<^verbatim>\<open>1\<close>, \<^verbatim>\<open>yes\<close> and \<^verbatim>\<open>True\<close> followed by a space disable it. With export disabled no run
  calls \<^verbatim>\<open>export_pdf\<close>, and a bundle that reaches the mailer holds the chart attachment
  alone; with export enabled a bundle reaches the mailer only after \<^verbatim>\<open>export_pdf\<close> ran.
\<close>

theorem pdf_enabled_iff_true:
  "(enable_pdf w = (case environ w ''ENABLE_PDF'' of None \<Rightarrow> True | Some v \<Rightarrow> lower v = ''true''))
   \<and> ((lower v = ''true'') =
        (\<exists>a b c d. v = [a, b, c, d] \<and> (a = CHR ''t'' \<or> a = CHR ''T'')
           \<and> (b = CHR ''r'' \<or> b = CHR ''R'') \<and> (c = CHR ''u'' \<or> c = CHR ''U'')
           \<and> (d = CHR ''e'' \<or> d = CHR ''E'')))
   \<and> (environ w ''ENABLE_PDF'' \<in> {Some ''1'', Some ''yes'', Some ''True ''} \<longrightarrow> \<not> enable_pdf w)
   \<and> (trace w = [] \<and> \<not> enable_pdf w \<longrightarrow> ExportPdf \<notin> set (trace (snd (build_and_send w))))
   \<and> (trace w = [] \<and> SendEmail subject html atts \<in> set (trace (snd (build_and_send w))) \<longrightarrow>
        (enable_pdf w = (ExportPdf \<in> set (trace (snd (build_and_send w)))))
        \<and> (\<not> enable_pdf w \<longrightarrow> (\<exists>chart. atts = [(''revenue_chart.png'', chart, ''image/png'')])))"
proof (intro conjI impI)
  show "enable_pdf w = (case environ w ''ENABLE_PDF'' of None \<Rightarrow> True | Some v \<Rightarrow> lower v = ''true'')"
    by (simp add: enable_pdf_def getenv_def lower_def lower_char_def split: option.splits)
  show "(lower v = ''true'') =
        (\<exists>a b c d. v = [a, b, c, d] \<and> (a = CHR ''t'' \<or> a = CHR ''T'')
           \<and> (b = CHR ''r'' \<or> b = CHR ''R'') \<and> (c = CHR ''u'' \<or> c = CHR ''U'')
           \<and> (d = CHR ''e'' \<or> d = CHR ''E''))"
    by (rule lower_true)
  show "\<not> enable_pdf w" if "environ w ''ENABLE_PDF'' \<in> {Some ''1'', Some ''yes'', Some ''True ''}"
    using that by (auto simp: enable_pdf_def getenv_def lower_true)
  show "ExportPdf \<notin> set (trace (snd (build_and_send w)))" if "trace w = [] \<and> \<not> enable_pdf w"
    using that by (simp add: no_export_when_disabled)
  show "enable_pdf w = (ExportPdf \<in> set (trace (snd (build_and_send w))))"
    if "trace w = [] \<and> SendEmail subject html atts \<in> set (trace (snd (build_and_send w)))"
  proof -
    from that sent_attachments [of w subject html atts]
    have "trace (snd (build_and_send w))
          = [ReadData, MakeChart, RenderHtml] @ (if enable_pdf w then [ExportPdf] else [])
              @ [SendEmail subject html atts]"
      by blast
    then show ?thesis by simp
  qed
  show "\<exists>chart. atts = [(''revenue_chart.png'', chart, ''image/png'')]"
    if "trace w = [] \<and> SendEmail subject html atts \<in> set (trace (snd (build_and_send w)))"
      and "\<not> enable_pdf w"
  proof -
    from that(1) sent_attachments [of w subject html atts]
    obtain df where "atts = expected_attachments w df" by blast
    with that(2) show ?thesis by (simp add: expected_attachments_def)
  qed
qed

text \<open>
  The run on the two-row dataset with \<^verbatim>\<open>ENABLE_PDF\<close> set to \<^verbatim>\<open>True\<close> followed by a space:
  the mailer is reached, \<^verbatim>\<open>export_pdf\<close> is not, and the chart is the only attachment.
\<close>

theorem pdf_enabled_iff_true_witness:
  "\<exists>subject html atts.
     trace (sample_world (mail_settings(''ENABLE_PDF'' \<mapsto> ''True '')) sample_frame) = []
     \<and> environ (sample_world (mail_settings(''ENABLE_PDF'' \<mapsto> ''True '')) sample_frame) ''ENABLE_PDF''
          \<in> {Some ''1'', Some ''yes'', Some ''True ''}
     \<and> \<not> enable_pdf (sample_world (mail_settings(''ENABLE_PDF'' \<mapsto> ''True '')) sample_frame)
     \<and> SendEmail subject html atts \<in> set (trace (snd (build_and_send
          (sample_world (mail_settings(''ENABLE_PDF'' \<mapsto> ''True '')) sample_frame))))
     \<and> ExportPdf \<notin> set (trace (snd (build_and_send
          (sample_world (mail_settings(''ENABLE_PDF'' \<mapsto> ''True '')) sample_frame))))
     \<and> (\<exists>chart. atts = [(''revenue_chart.png'', chart, ''image/png'')])"
proof -
  let ?w = "sample_world (mail_settings(''ENABLE_PDF'' \<mapsto> ''True '')) sample_frame"
  have t0: "trace ?w = []" by (simp add: sample_world_def)
  have env: "environ ?w ''ENABLE_PDF'' \<in> {Some ''1'', Some ''yes'', Some ''True ''}"
    by (simp add: sample_world_def)
  from sample_run [of "mail_settings(''ENABLE_PDF'' \<mapsto> ''True '')"] obtain h where
    tr: "trace (snd (build_and_send ?w)) =
      [ReadData, MakeChart, RenderHtml] @ (if enable_pdf ?w then [ExportPdf] else [])
        @ [SendEmail (getenv ?w ''REPORT_TITLE'' ''Sales Report'') h
             (expected_attachments ?w sample_frame)]"
    by blast
  then have mem: "SendEmail (getenv ?w ''REPORT_TITLE'' ''Sales Report'') h
      (expected_attachments ?w sample_frame) \<in> set (trace (snd (build_and_send ?w)))"
    by simp
  note inst = pdf_enabled_iff_true [of ?w "''True ''" "getenv ?w ''REPORT_TITLE'' ''Sales Report''" h
      "expected_attachments ?w sample_frame"]
  from inst env have off: "\<not> enable_pdf ?w" by blast
  from inst t0 off have "ExportPdf \<notin> set (trace (snd (build_and_send ?w)))" by blast
  moreover from inst t0 mem off
  have "\<exists>chart. expected_attachments ?w sample_frame = [(''revenue_chart.png'', chart, ''image/png'')]"
    by blast
  ultimately show ?thesis using t0 env off mem by blast
qed

section \<open>A dataset without its revenue column\<close>

text \<open>
  Claim C4, as the code has it. A dataset file without the \<^verbatim>\<open>revenue\<close> column never makes
  a run fail with \<^verbatim>\<open>DataLoadError\<close>. When the file has its \<^verbatim>\<open>date\<close> column, loading
  succeeds and returns the frame; the run then fails with \<^verbatim>\<open>KeyError\<close> inside
  \<^verbatim>\<open>make_chart\<close>, the first stage after loading, with no file written, and the later
  stages (rendering, PDF export, sending) do not run. When the \<^verbatim>\<open>date\<close> column is missing
  as well, loading itself fails, with the \<^verbatim>\<open>ValueError\<close> of \<^verbatim>\<open>read_csv\<close>, and no later
  stage runs.
\<close>

theorem missing_revenue_fails_in_make_chart:
  assumes "files w (data_path w) = Some (Csv df)" and "''revenue'' \<notin> set (columns df)"
    and "trace w = []"
  shows "fst (read_data w) \<noteq> Inl DataLoadError \<and> fst (build_and_send w) \<noteq> Inl DataLoadError
    \<and> (''date'' \<in> set (columns df) \<longrightarrow>
          fst (read_data w) = Inr df \<and> fst (build_and_send w) = Inl KeyError
          \<and> trace (snd (build_and_send w)) = [ReadData, MakeChart]
          \<and> files (snd (build_and_send w)) = files w)
    \<and> (''date'' \<notin> set (columns df) \<longrightarrow>
          fst (read_data w) = Inl ValueError \<and> fst (build_and_send w) = Inl ValueError
          \<and> trace (snd (build_and_send w)) = [ReadData])"
proof -
  have rd: "fst (read_data w) = (if ''date'' \<in> set (columns df) then Inr df else Inl ValueError)"
    using assms(1) by (simp add: read_data_fst)
  show ?thesis
  proof (cases "''date'' \<in> set (columns df)")
    case True
    with rd assms(2) have "build_and_send w = (Inl KeyError, enter MakeChart (enter ReadData w))"
      by (simp add: build_and_send_unfold)
    with True rd assms(3) show ?thesis by simp
  next
    case False
    with rd have "build_and_send w = (Inl ValueError, enter ReadData w)"
      by (simp add: build_and_send_unfold)
    with False rd assms(3) show ?thesis by simp
  qed
qed

text \<open>
  A dataset with the columns \<^verbatim>\<open>date\<close> and \<^verbatim>\<open>orders\<close> only: loading does not fail, and
  the chart stage is entered.
\<close>

theorem missing_revenue_counterexample:
  "fst (read_data (sample_world mail_settings frame_without_revenue)) = Inr frame_without_revenue
   \<and> fst (read_data (sample_world mail_settings frame_without_revenue)) \<noteq> Inl DataLoadError
   \<and> MakeChart \<in> set (trace (snd (build_and_send (sample_world mail_settings frame_without_revenue))))"
proof -
  let ?w = "sample_world mail_settings frame_without_revenue"
  have rd: "fst (read_data ?w) = Inr frame_without_revenue"
    by (simp add: sample_read frame_without_revenue_def)
  then have "build_and_send ?w = (Inl KeyError, enter MakeChart (enter ReadData ?w))"
    by (simp add: build_and_send_unfold frame_without_revenue_def)
  with rd show ?thesis by simp
qed

theorem missing_revenue_fails_in_make_chart_witness:
  "files (sample_world mail_settings frame_without_revenue)
       (data_path (sample_world mail_settings frame_without_revenue))
     = Some (Csv frame_without_revenue)
   \<and> ''revenue'' \<notin> set (columns frame_without_revenue)
   \<and> ''date'' \<in> set (columns frame_without_revenue)
   \<and> trace (sample_world mail_settings frame_without_revenue) = []
   \<and> fst (build_and_send (sample_world mail_settings frame_without_revenue)) = Inl KeyError
   \<and> trace (snd (build_and_send (sample_world mail_settings frame_without_revenue)))
       = [ReadData, MakeChart]"
proof -
  let ?w = "sample_world mail_settings frame_without_revenue"
  have f: "files ?w (data_path ?w) = Some (Csv frame_without_revenue)"
    by (simp add: sample_world_def data_path_def path_join_def)
  have c: "''revenue'' \<notin> set (columns frame_without_revenue)"
    and d: "''date'' \<in> set (columns frame_without_revenue)"
    by (simp_all add: frame_without_revenue_def)
  have t: "trace ?w = []" by (simp add: sample_world_def)
  from missing_revenue_fails_in_make_chart [OF f c t] d f c t show ?thesis by blast
qed

section \<open>The table with no records\<close>

lemma take_rows_Nil: "take_rows [] idx = (if idx = [] then Inr [] else Inl IndexError)"
  by (cases idx) (simp_all add: take_rows_def)

lemma compute_metrics_empty:
  assumes "records df = []"
  shows "compute_metrics w df =
     (if ''orders'' \<in> set (columns df) \<and> ''revenue'' \<in> set (columns df) then Inl IndexError
      else Inl KeyError)"
  using assms
  by (simp add: compute_metrics_def sort_values_def bind_res_def getitem_def take_rows_Nil iloc0_def)

lemma compute_metrics_no_spec_error: "compute_metrics w df \<noteq> Inl EmptyDatasetError"
  by (auto simp: compute_metrics_def sort_values_def bind_res_def getitem_def take_rows_def
      iloc0_def split: if_splits sum.splits list.splits)

text \<open>
  Claim C3, as the code has it. On the table with zero records the computation of the
  report figures (lines 50 to 52 of \<^verbatim>\<open>render_html\<close>) never returns figures: it fails with
  the \<^verbatim>\<open>IndexError\<close> of \<^verbatim>\<open>.iloc[0]\<close> on the empty frame, or with \<^verbatim>\<open>KeyError\<close> when the
  \<^verbatim>\<open>orders\<close> or the \<^verbatim>\<open>revenue\<close> column is missing, and \<^verbatim>\<open>render_html\<close> returns no report.
  The failure is never \<^verbatim>\<open>EmptyDatasetError\<close>, on any table.
\<close>

theorem empty_table_fails_with_index_error:
  assumes "records df = []"
  shows "(\<exists>e. compute_metrics w df = Inl e \<and> (e = IndexError \<or> e = KeyError))
    \<and> (''orders'' \<in> set (columns df) \<and> ''revenue'' \<in> set (columns df) \<longrightarrow>
          compute_metrics w df = Inl IndexError)
    \<and> (\<exists>e. fst (render_html df chart_path w) = Inl e)
    \<and> compute_metrics w df' \<noteq> Inl EmptyDatasetError"
proof -
  from compute_metrics_empty [OF assms, of w]
  have 1: "\<exists>e. compute_metrics w df = Inl e \<and> (e = IndexError \<or> e = KeyError)" by simp
  then have "\<exists>e. report_context w df chart_path = Inl e"
    by (auto simp: report_context_def bind_res_def)
  then have 2: "\<exists>e. fst (render_html df chart_path w) = Inl e"
    by (auto simp: render_html_fst bind_res_def split: sum.splits)
  from 1 2 compute_metrics_empty [OF assms, of w] compute_metrics_no_spec_error [of w df']
  show ?thesis by simp
qed

text \<open>The empty table with all three columns: the failure is \<^verbatim>\<open>IndexError\<close>.\<close>

theorem empty_table_counterexample:
  "compute_metrics (sample_world mail_settings empty_frame) empty_frame = Inl IndexError
   \<and> compute_metrics (sample_world mail_settings empty_frame) empty_frame \<noteq> Inl EmptyDatasetError"
  by (simp add: compute_metrics_empty empty_frame_def)

theorem empty_table_fails_with_index_error_witness:
  "records empty_frame = []
   \<and> ''orders'' \<in> set (columns empty_frame) \<and> ''revenue'' \<in> set (columns empty_frame)
   \<and> compute_metrics (sample_world mail_settings empty_frame) empty_frame = Inl IndexError"
proof -
  have r: "records empty_frame = []" by (simp add: empty_frame_def)
  have c: "''orders'' \<in> set (columns empty_frame) \<and> ''revenue'' \<in> set (columns empty_frame)"
    by (simp add: empty_frame_def)
  from empty_table_fails_with_index_error [OF r, of "sample_world mail_settings empty_frame"] r c
  show ?thesis by blast
qed

text \<open>
  Claim C9, as the code has it. \<^verbatim>\<open>make_chart\<close> never fails with \<^verbatim>\<open>RenderError\<close>; it has
  no check on the table, and its only failure is the \<^verbatim>\<open>KeyError\<close> of a missing \<^verbatim>\<open>date\<close>
  or \<^verbatim>\<open>revenue\<close> column. For the table with zero records and both columns it returns
  normally and writes, at the output path, the picture of a plot with an empty line.
\<close>

theorem make_chart_draws_empty_table:
  "fst (make_chart df out_path w) \<noteq> Inl RenderError
   \<and> (fst (make_chart df out_path w) = Inr () \<or> fst (make_chart df out_path w) = Inl KeyError)
   \<and> (records df = [] \<and> ''date'' \<in> set (columns df) \<and> ''revenue'' \<in> set (columns df) \<longrightarrow>
         fst (make_chart df out_path w) = Inr ()
         \<and> files (snd (make_chart df out_path w)) out_path = Some (Png (revenue_figure [] [])))"
  by (simp add: make_chart_fst make_chart_snd chart_blob_def)

text \<open>The empty table with all three columns: the chart is written.\<close>

theorem make_chart_empty_counterexample:
  "fst (make_chart empty_frame ''/srv/report/out/revenue_chart.png''
          (sample_world mail_settings empty_frame)) = Inr ()
   \<and> files (snd (make_chart empty_frame ''/srv/report/out/revenue_chart.png''
          (sample_world mail_settings empty_frame))) ''/srv/report/out/revenue_chart.png''
       = Some (Png \<lparr>fig_title = ''Revenue Over Time'', fig_xlabel = ''Date'',
                    fig_ylabel = ''Revenue'', fig_line = []\<rparr>)"
  by (simp add: make_chart_fst make_chart_snd chart_blob_def empty_frame_def revenue_figure_def)

theorem make_chart_draws_empty_table_witness:
  "records empty_frame = [] \<and> ''date'' \<in> set (columns empty_frame)
   \<and> ''revenue'' \<in> set (columns empty_frame)
   \<and> fst (make_chart empty_frame ''chart.png'' (sample_world mail_settings empty_frame)) = Inr ()"
proof -
  have h: "records empty_frame = [] \<and> ''date'' \<in> set (columns empty_frame)
      \<and> ''revenue'' \<in> set (columns empty_frame)"
    by (simp add: empty_frame_def)
  from make_chart_draws_empty_table
    [of empty_frame "''chart.png''" "sample_world mail_settings empty_frame"] h
  show ?thesis by blast
qed

section \<open>The row listing and the escaping of values\<close>




lemma sample_amounts: "format_currency 350 = ''$350.00''" "format_currency 250 = ''$250.00''" "format_currency 100 = ''$100.00''"
  by (simp_all add: format_currency_def format_comma_2f_def cents_def round_half_even_def
        commas_def show_nat.simps zfill_def digit_char_def)

lemma sample_dates: "strftime_date \<lparr>year = 2024, month = 1, day = 2\<rparr> = ''2024-01-02''"
   "strftime_date \<lparr>year = 2024, month = 1, day = 1\<rparr> = ''2024-01-01''"
   "strftime_minute \<lparr>year = 2024, month = 1, day = 3, hour = 9, minute = 0\<rparr> = ''2024-01-03 09:00''"
  by (simp_all add: strftime_date_def strftime_minute_def show_nat.simps zfill_def digit_char_def)

lemma sample_counts: "show_int 15 = ''15''" "show_int 10 = ''10''" "show_int 5 = ''5''"
  by (simp_all add: show_int_def show_nat.simps digit_char_def)

lemma sample_context: "report_context (sample_world env sample_frame) sample_frame ''/srv/report/out/revenue_chart.png''
  = Inr \<lparr>ctx_title = getenv (sample_world env sample_frame) ''REPORT_TITLE'' ''Sales Report'',
          ctx_generated_at = ''2024-01-03 09:00'',
          ctx_chart_path = ''revenue_chart.png'',
          ctx_total_orders = 15,
          ctx_total_revenue = ''$350.00'',
          ctx_best_date = ''2024-01-02'',
          ctx_best_revenue = ''$250.00'',
          ctx_rows = [\<lparr>row_date = ''2024-01-01'', row_orders = 10, row_revenue = ''$100.00''\<rparr>,
                      \<lparr>row_date = ''2024-01-02'', row_orders = 5, row_revenue = ''$250.00''\<rparr>]\<rparr>"
  by (simp add: report_context_def sample_metrics bind_res_def getitem_def sample_amounts sample_dates sample_counts basename_def
      report_row_def) (simp add: sample_frame_def sample_world_def sample_amounts report_row_def strftime_date_def
      strftime_minute_def show_nat.simps zfill_def digit_char_def)

lemma autoescape_off: "select_autoescape ''report.html.j2'' = False"
  by (simp add: select_autoescape_def lower_def lower_char_def endswith_def)

lemma autoescape_on_html: "select_autoescape ''report.html'' = True"
  by (simp add: select_autoescape_def lower_def lower_char_def endswith_def)

lemma sample_html:
  "fst (render_html sample_frame ''/srv/report/out/revenue_chart.png'' (sample_world env sample_frame))
     = Inr (''<h1>'' @ getenv (sample_world env sample_frame) ''REPORT_TITLE'' ''Sales Report''
         @ ''</h1><p>2024-01-03 09:00</p><img src=revenue_chart.png><p>15 orders, $350.00; best 2024-01-02 $250.00</p><table><tr><td>2024-01-01</td><td>10</td><td>$100.00</td></tr><tr><td>2024-01-02</td><td>5</td><td>$250.00</td></tr></table>'')"
  by (simp add: render_html_fst sample_template_found sample_context bind_res_def autoescape_off
      render_template_def sample_template_def emit_def lookup_def render_row_def lookup_row_def sample_counts)


text \<open>
  Claim C2, evaluated on the code. The template is loaded under the name
  \<^verbatim>\<open>report.html.j2\<close>, which ends in none of the extensions that \<^verbatim>\<open>select_autoescape()\<close>
  enables, so autoescaping is off for it (it would be on for \<^verbatim>\<open>report.html\<close>), and a
  placeholder is replaced by its value as it is. With the title \<^verbatim>\<open>A & B\<close> configured,
  the report holds \<^verbatim>\<open>A & B\<close> and not \<^verbatim>\<open>A &amp; B\<close>, the escaped title.
\<close>

theorem title_rendered_unescaped:
  "select_autoescape ''report.html.j2'' = False
   \<and> select_autoescape ''report.html'' = True
   \<and> escape ''A & B'' = ''A &amp; B''
   \<and> render_node (select_autoescape ''report.html.j2'') c (Var PTitle) = ctx_title c
   \<and> fst (render_html sample_frame ''/srv/report/out/revenue_chart.png''
          (sample_world (mail_settings(''REPORT_TITLE'' \<mapsto> ''A & B'')) sample_frame))
       = Inr ''<h1>A & B</h1><p>2024-01-03 09:00</p><img src=revenue_chart.png><p>15 orders, $350.00; best 2024-01-02 $250.00</p><table><tr><td>2024-01-01</td><td>10</td><td>$100.00</td></tr><tr><td>2024-01-02</td><td>5</td><td>$250.00</td></tr></table>''"
proof -
  have "getenv (sample_world (mail_settings(''REPORT_TITLE'' \<mapsto> ''A & B'')) sample_frame)
      ''REPORT_TITLE'' ''Sales Report'' = ''A & B''"
    by (simp add: getenv_def sample_world_def)
  with sample_html [of "mail_settings(''REPORT_TITLE'' \<mapsto> ''A & B'')"]
  have "fst (render_html sample_frame ''/srv/report/out/revenue_chart.png''
          (sample_world (mail_settings(''REPORT_TITLE'' \<mapsto> ''A & B'')) sample_frame))
       = Inr ''<h1>A & B</h1><p>2024-01-03 09:00</p><img src=revenue_chart.png><p>15 orders, $350.00; best 2024-01-02 $250.00</p><table><tr><td>2024-01-01</td><td>10</td><td>$100.00</td></tr><tr><td>2024-01-02</td><td>5</td><td>$250.00</td></tr></table>''"
    by simp
  moreover have "escape ''A & B'' = ''A &amp; B''" by (simp add: escape_def escape_char_def)
  ultimately show ?thesis
    by (simp add: autoescape_off autoescape_on_html emit_def lookup_def)
qed

section \<open>The totals\<close>









section \<open>The best record\<close>





end
